theory Spec2Isabelle
  imports Main "HOL-Library.Multiset" "HOL-Library.Char_ord" "HOL-Library.List_Lexorder"
    "HOL-Library.Product_Lexorder"
begin

section \<open>Python string primitives used by the task engine\<close>

text \<open>
  Python strings are modelled as \<open>string\<close>; a character is read as its Latin-1 code point.
  \<open>str.strip()\<close> removes the characters for which \<open>str.isspace\<close> holds: in this range
  the codes 9-13, 28-32, 133 and 160.
\<close>

definition isspace :: "char \<Rightarrow> bool" where
  "isspace c = (let n = (of_char c :: nat) in
     (9 \<le> n \<and> n \<le> 13) \<or> (28 \<le> n \<and> n \<le> 32) \<or> n = 133 \<or> n = 160)"

definition lstrip :: "string \<Rightarrow> string" where
  "lstrip s = dropWhile isspace s"

definition rstrip :: "string \<Rightarrow> string" where
  "rstrip s = rev (dropWhile isspace (rev s))"

definition strip :: "string \<Rightarrow> string" where
  "strip s = rstrip (lstrip s)"

definition lower_char :: "char \<Rightarrow> char" where
  "lower_char c = (let n = (of_char c :: nat) in
     if (65 \<le> n \<and> n \<le> 90) \<or> (192 \<le> n \<and> n \<le> 222 \<and> n \<noteq> 215)
     then char_of (n + 32) else c)"

definition lower :: "string \<Rightarrow> string" where
  "lower s = map lower_char s"

text \<open>
  \<open>s.replace(old, new)\<close> for a non-empty \<open>old\<close>: every non-overlapping occurrence,
  scanning from the left. (Both calls in the source pass a non-empty literal; for an empty
  \<open>old\<close> the model returns the string unchanged.)
\<close>

function replace :: "string \<Rightarrow> string \<Rightarrow> string \<Rightarrow> string" where
  "replace old new [] = []"
| "replace old new (c # cs) =
     (if old \<noteq> [] \<and> take (length old) (c # cs) = old
      then new @ replace old new (drop (length old) (c # cs))
      else c # replace old new cs)"
  by pat_completeness auto
termination
  by (relation "measure (\<lambda>(old, new, s). length s)") auto

text \<open>Decimal output (\<open>str(n)\<close>, \<open>%02d\<close>, \<open>%04d\<close>, \<open>%06d\<close>) and digit input.\<close>

definition digit_char :: "int \<Rightarrow> char" where
  "digit_char d = char_of (48 + d)"

function digits :: "int \<Rightarrow> string" where
  "digits n = (if n < 10 then [digit_char n] else digits (n div 10) @ [digit_char (n mod 10)])"
  by pat_completeness auto
termination
  by (relation "measure (\<lambda>n. nat n)") auto

definition zpad :: "nat \<Rightarrow> int \<Rightarrow> string" where
  "zpad w n = replicate (w - length (digits n)) (CHR ''0'') @ digits n"

definition str_int :: "int \<Rightarrow> string" where
  "str_int i = (if i < 0 then CHR ''-'' # digits (- i) else digits i)"

definition isdigit :: "char \<Rightarrow> bool" where
  "isdigit c = (let n = (of_char c :: int) in 48 \<le> n \<and> n \<le> 57)"

definition digit_val :: "char \<Rightarrow> int" where
  "digit_val c = (of_char c :: int) - 48"

definition parse_nat :: "string \<Rightarrow> int option" where
  "parse_nat s = (if s \<noteq> [] \<and> list_all isdigit s
                  then Some (foldl (\<lambda>a c. 10 * a + digit_val c) 0 s) else None)"

text \<open>\<open>sep.join(xs)\<close>.\<close>

fun join :: "string \<Rightarrow> string list \<Rightarrow> string" where
  "join sep [] = []"
| "join sep [x] = x"
| "join sep (x # y # ys) = x @ sep @ join sep (y # ys)"

section \<open>Web variant: validation skill\<close>

text \<open>
  \<open>validate_task_title\<close> of \<open>backend/skills/validation_skill.py\<close>. The argument is
  \<open>Optional[str]\<close>; the result is the pair \<open>(is_valid, error_message)\<close>.
\<close>

definition validate_task_title :: "string option \<Rightarrow> bool \<times> string option" where
  "validate_task_title title =
     (case title of
        None \<Rightarrow> (False, Some ''Title is required and cannot be empty'')
      | Some t \<Rightarrow>
          if t = '''' then (False, Some ''Title is required and cannot be empty'')
          else if strip t = '''' then (False, Some ''Title is required and cannot be empty'')
          else if length t > 500 then (False, Some ''Title cannot exceed 500 characters'')
          else (True, None))"

section \<open>The datetime values of the Python standard library\<close>

text \<open>
  A \<open>datetime\<close> value: its calendar fields and its \<open>tzinfo\<close>, which is absent (a naive
  value) or a fixed offset from UTC, kept here in microseconds.
\<close>

record datetime =
  year :: int
  month :: int
  day :: int
  hour :: int
  minute :: int
  second :: int
  microsecond :: int
  tzinfo :: "int option"

definition is_leap :: "int \<Rightarrow> bool" where
  "is_leap y = (y mod 4 = 0 \<and> (y mod 100 \<noteq> 0 \<or> y mod 400 = 0))"

definition month_lengths :: "int list" where
  "month_lengths = [31, 28, 31, 30, 31, 30, 31, 31, 30, 31, 30, 31]"

definition days_in_month :: "int \<Rightarrow> int \<Rightarrow> int" where
  "days_in_month y m = (if m = 2 \<and> is_leap y then 29 else month_lengths ! nat (m - 1))"

definition days_before_year :: "int \<Rightarrow> int" where
  "days_before_year y = (let p = y - 1 in p * 365 + p div 4 - p div 100 + p div 400)"

definition days_before_month :: "int \<Rightarrow> int \<Rightarrow> int" where
  "days_before_month y m =
     sum_list (take (nat (m - 1)) month_lengths) + (if m > 2 \<and> is_leap y then 1 else 0)"

definition ymd2ord :: "int \<Rightarrow> int \<Rightarrow> int \<Rightarrow> int" where
  "ymd2ord y m d = days_before_year y + days_before_month y m + d"

text \<open>The range checks of the \<open>datetime\<close> and \<open>timezone\<close> constructors.\<close>

definition day_us :: int where
  "day_us = 86400000000"

definition check_fields :: "datetime \<Rightarrow> bool" where
  "check_fields d =
     (1 \<le> year d \<and> year d \<le> 9999 \<and> 1 \<le> month d \<and> month d \<le> 12
      \<and> 1 \<le> day d \<and> day d \<le> days_in_month (year d) (month d)
      \<and> 0 \<le> hour d \<and> hour d \<le> 23 \<and> 0 \<le> minute d \<and> minute d \<le> 59
      \<and> 0 \<le> second d \<and> second d \<le> 59 \<and> 0 \<le> microsecond d \<and> microsecond d \<le> 999999
      \<and> (case tzinfo d of None \<Rightarrow> True | Some off \<Rightarrow> - day_us < off \<and> off < day_us))"

text \<open>
  The position of a naive value on the time line, in microseconds: what subtraction and
  comparison of naive datetimes work on. \<open>replace(tzinfo=None)\<close> drops the offset and
  keeps the fields.
\<close>

definition to_us :: "datetime \<Rightarrow> int" where
  "to_us d = (((ymd2ord (year d) (month d) (day d) * 24 + hour d) * 60
               + minute d) * 60 + second d) * 1000000 + microsecond d"

definition replace_tzinfo_None :: "datetime \<Rightarrow> datetime" where
  "replace_tzinfo_None d = d\<lparr>tzinfo := None\<rparr>"

text \<open>\<open>(a - b).days\<close> for naive \<open>a\<close> and \<open>b\<close>: a timedelta keeps its days rounded down.\<close>

definition delta_days :: "datetime \<Rightarrow> datetime \<Rightarrow> int" where
  "delta_days a b = (to_us a - to_us b) div day_us"

text \<open>\<open>datetime.isoformat()\<close> with the default separator and \<open>timespec\<close>.\<close>

definition format_time :: "datetime \<Rightarrow> string" where
  "format_time d =
     zpad 2 (hour d) @ '':'' @ zpad 2 (minute d) @ '':'' @ zpad 2 (second d)
     @ (if microsecond d \<noteq> 0 then ''.'' @ zpad 6 (microsecond d) else [])"

definition format_offset :: "int option \<Rightarrow> string" where
  "format_offset off =
     (case off of
        None \<Rightarrow> []
      | Some v \<Rightarrow>
          let a = abs v;
              hh = a div 3600000000;
              r = a mod 3600000000;
              mm = r div 60000000;
              ss = r mod 60000000
          in (if v < 0 then ''-'' else ''+'') @ zpad 2 hh @ '':'' @ zpad 2 mm
             @ (if ss \<noteq> 0
                then '':'' @ zpad 2 (ss div 1000000)
                     @ (if ss mod 1000000 \<noteq> 0 then ''.'' @ zpad 6 (ss mod 1000000) else [])
                else []))"

definition isoformat :: "datetime \<Rightarrow> string" where
  "isoformat d =
     zpad 4 (year d) @ ''-'' @ zpad 2 (month d) @ ''-'' @ zpad 2 (day d) @ ''T''
     @ format_time d @ format_offset (tzinfo d)"

text \<open>
  \<open>datetime.fromisoformat\<close> is library code. The model accepts the format documented for
  it, \<open>YYYY-MM-DD[*HH[:MM[:SS[.fff[fff]]]][+HH:MM[:SS[.ffffff]]]]\<close>, and follows
  the structure of the library's reference implementation; \<open>None\<close> stands for its
  \<open>ValueError\<close>.
\<close>

definition parse_isoformat_date :: "string \<Rightarrow> (int \<times> int \<times> int) option" where
  "parse_isoformat_date s =
     (if length s \<noteq> 10 \<or> s ! 4 \<noteq> CHR ''-'' \<or> s ! 7 \<noteq> CHR ''-'' then None
      else case (parse_nat (take 4 s), parse_nat (take 2 (drop 5 s)), parse_nat (drop 8 s)) of
             (Some y, Some m, Some d) \<Rightarrow> Some (y, m, d)
           | _ \<Rightarrow> None)"

definition parse_two :: "string \<Rightarrow> int option" where
  "parse_two s = (if length s < 2 then None else parse_nat (take 2 s))"

definition parse_fraction :: "string \<Rightarrow> int option" where
  "parse_fraction r =
     (if r = [] then Some 0
      else if hd r \<noteq> CHR ''.'' then None
      else let f = tl r in
        if length f \<noteq> 3 \<and> length f \<noteq> 6 then None
        else case parse_nat f of
               None \<Rightarrow> None
             | Some us \<Rightarrow> Some (if length f = 3 then us * 1000 else us))"

definition parse_hh_mm_ss_ff :: "string \<Rightarrow> (int \<times> int \<times> int \<times> int) option" where
  "parse_hh_mm_ss_ff t =
     (case parse_two t of
        None \<Rightarrow> None
      | Some hh \<Rightarrow>
          (let r1 = drop 2 t in
           if r1 = [] then Some (hh, 0, 0, 0)
           else if hd r1 \<noteq> CHR '':'' then None
           else (case parse_two (tl r1) of
                   None \<Rightarrow> None
                 | Some mm \<Rightarrow>
                     (let r2 = drop 2 (tl r1) in
                      if r2 = [] then Some (hh, mm, 0, 0)
                      else if hd r2 \<noteq> CHR '':'' then None
                      else (case parse_two (tl r2) of
                              None \<Rightarrow> None
                            | Some ss \<Rightarrow>
                                (case parse_fraction (drop 2 (tl r2)) of
                                   None \<Rightarrow> None
                                 | Some us \<Rightarrow> Some (hh, mm, ss, us)))))))"

text \<open>\<open>s.find(c)\<close> as an option.\<close>

fun find_char :: "char \<Rightarrow> string \<Rightarrow> nat option" where
  "find_char c [] = None"
| "find_char c (x # xs) =
     (if x = c then Some 0 else map_option Suc (find_char c xs))"

definition parse_isoformat_time :: "string \<Rightarrow> (int \<times> int \<times> int \<times> int \<times> int option) option" where
  "parse_isoformat_time tstr =
     (if length tstr < 2 then None
      else
        (let tz_pos = (case find_char (CHR ''-'') tstr of
                         Some i \<Rightarrow> Some i
                       | None \<Rightarrow> find_char (CHR ''+'') tstr);
             timestr = (case tz_pos of Some i \<Rightarrow> take i tstr | None \<Rightarrow> tstr)
         in (case parse_hh_mm_ss_ff timestr of
               None \<Rightarrow> None
             | Some (hh, mm, ss, us) \<Rightarrow>
                 (case tz_pos of
                    None \<Rightarrow> Some (hh, mm, ss, us, None)
                  | Some i \<Rightarrow>
                      (let tzstr = drop (Suc i) tstr in
                       if length tzstr \<notin> {5, 8, 15} then None
                       else (case parse_hh_mm_ss_ff tzstr of
                               None \<Rightarrow> None
                             | Some (th, tm, ts, tu) \<Rightarrow>
                                 (let td = ((th * 60 + tm) * 60 + ts) * 1000000 + tu;
                                      tzsign = (if tstr ! i = CHR ''-'' then - 1 else 1)
                                  in Some (hh, mm, ss, us, Some (tzsign * td)))))))))"

definition fromisoformat :: "string \<Rightarrow> datetime option" where
  "fromisoformat date_string =
     (case parse_isoformat_date (take 10 date_string) of
        None \<Rightarrow> None
      | Some (y, m, d) \<Rightarrow>
          (case (if length date_string > 10 then parse_isoformat_time (drop 11 date_string)
                 else Some (0, 0, 0, 0, None)) of
             None \<Rightarrow> None
           | Some (hh, mm, ss, us, tz) \<Rightarrow>
               let dt = \<lparr>year = y, month = m, day = d, hour = hh, minute = mm, second = ss,
                          microsecond = us, tzinfo = tz\<rparr>
               in if check_fields dt then Some dt else None))"

section \<open>Console variant: data models (\<open>utils/models.py\<close>)\<close>

text \<open>
  Python exceptions are values. \<open>OtherError\<close> stands for every exception class that the
  skills only catch with their final \<open>except Exception\<close> clause (a \<open>TypeError\<close>, say).
\<close>

datatype exn = ValueError string | StorageError string | OtherError string

fun str_exn :: "exn \<Rightarrow> string" where
  "str_exn (ValueError m) = m"
| "str_exn (StorageError m) = m"
| "str_exn (OtherError m) = m"

datatype Priority = HIGH | MEDIUM | LOW

datatype Status = PENDING | IN_PROGRESS | COMPLETED

fun Priority_value :: "Priority \<Rightarrow> string" where
  "Priority_value HIGH = ''high''"
| "Priority_value MEDIUM = ''medium''"
| "Priority_value LOW = ''low''"

fun Status_value :: "Status \<Rightarrow> string" where
  "Status_value PENDING = ''pending''"
| "Status_value IN_PROGRESS = ''in_progress''"
| "Status_value COMPLETED = ''completed''"

definition Priority_from_string :: "string \<Rightarrow> exn + Priority" where
  "Priority_from_string v =
     (let l = lower v in
      if l = ''high'' then Inr HIGH
      else if l = ''medium'' then Inr MEDIUM
      else if l = ''low'' then Inr LOW
      else Inl (ValueError (''Invalid priority: '' @ v @ ''. Must be one of: high, medium, low'')))"

definition Status_from_string :: "string \<Rightarrow> exn + Status" where
  "Status_from_string v =
     (let l = lower v in
      if l = ''pending'' then Inr PENDING
      else if l = ''in_progress'' then Inr IN_PROGRESS
      else if l = ''completed'' then Inr COMPLETED
      else Inl (ValueError (''Invalid status: '' @ v
                            @ ''. Must be one of: pending, in_progress, completed'')))"

definition MAX_TITLE_LENGTH :: nat where "MAX_TITLE_LENGTH = 200"
definition MAX_CATEGORY_LENGTH :: nat where "MAX_CATEGORY_LENGTH = 50"
definition DEFAULT_CATEGORY :: string where "DEFAULT_CATEGORY = ''general''"

text \<open>The entries of \<open>ERROR_CODES\<close>, and the literal code of the catch-all clauses.\<close>

definition NOT_FOUND :: string where "NOT_FOUND = ''TASK_NOT_FOUND''"
definition VALIDATION_ERROR :: string where "VALIDATION_ERROR = ''VALIDATION_ERROR''"
definition STORAGE_ERROR :: string where "STORAGE_ERROR = ''STORAGE_ERROR''"
definition NO_CHANGES :: string where "NO_CHANGES = ''NO_CHANGES_PROVIDED''"
definition UNKNOWN_ERROR :: string where "UNKNOWN_ERROR = ''UNKNOWN_ERROR''"

text \<open>
  A stored task is a JSON object with the ten keys that \<open>Task.to_dict\<close> writes; priority
  and status are stored as their string values. The in-memory \<open>Task\<close> holds the enums.
  (The field \<open>id\<close> is written \<open>id'\<close>; the keys of the stored object carry the prefix
  \<open>k_\<close>.)
\<close>

record task_dict =
  k_id :: int
  k_title :: string
  k_priority :: string
  k_category :: string
  k_status :: string
  k_completed :: bool
  k_created_at :: string
  k_updated_at :: "string option"
  k_completed_at :: "string option"
  k_due_date :: "string option"

record Task =
  id' :: int
  title :: string
  priority :: Priority
  category :: string
  status :: Status
  completed :: bool
  created_at :: string
  updated_at :: "string option"
  completed_at :: "string option"
  due_date :: "string option"

text \<open>The title and category checks of \<open>Task.__post_init__\<close>.\<close>

definition post_init :: "Task \<Rightarrow> exn + Task" where
  "post_init t =
     (let ti = strip (title t) in
      if ti = [] then Inl (ValueError ''Title cannot be empty'')
      else if length ti > MAX_TITLE_LENGTH
        then Inl (ValueError ''Title cannot exceed 200 characters'')
      else if length (category t) > MAX_CATEGORY_LENGTH
        then Inl (ValueError ''Category cannot exceed 50 characters'')
      else Inr (t\<lparr>title := ti\<rparr>))"

text \<open>
  \<open>Task.from_dict\<close>: the constructor call with the stored values; \<open>__post_init__\<close> first
  turns the priority and status strings into enums, then checks title and category.
\<close>

definition Task_from_dict :: "task_dict \<Rightarrow> exn + Task" where
  "Task_from_dict d =
     (case Priority_from_string (k_priority d) of
        Inl e \<Rightarrow> Inl e
      | Inr p \<Rightarrow>
          (case Status_from_string (k_status d) of
             Inl e \<Rightarrow> Inl e
           | Inr s \<Rightarrow>
               post_init \<lparr>id' = k_id d, title = k_title d, priority = p,
                          category = k_category d, status = s, completed = k_completed d,
                          created_at = k_created_at d, updated_at = k_updated_at d,
                          completed_at = k_completed_at d, due_date = k_due_date d\<rparr>))"

definition to_dict :: "Task \<Rightarrow> task_dict" where
  "to_dict t =
     \<lparr>k_id = id' t, k_title = title t, k_priority = Priority_value (priority t),
      k_category = category t, k_status = Status_value (status t),
      k_completed = completed t, k_created_at = created_at t, k_updated_at = updated_at t,
      k_completed_at = completed_at t, k_due_date = due_date t\<rparr>"

text \<open>
  The clock is an argument: \<open>now\<close> is the value \<open>datetime.utcnow()\<close> returns at the call,
  and \<open>stamp now\<close> is \<open>datetime.utcnow().isoformat() + "Z"\<close>.
\<close>

definition stamp :: "datetime \<Rightarrow> string" where
  "stamp now = isoformat now @ ''Z''"

definition mark_completed :: "datetime \<Rightarrow> Task \<Rightarrow> Task" where
  "mark_completed now t =
     (let t1 = t\<lparr>completed := True\<rparr>;
          t2 = t1\<lparr>status := COMPLETED\<rparr>;
          t3 = t2\<lparr>completed_at := Some (stamp now)\<rparr>
      in t3\<lparr>updated_at := completed_at t3\<rparr>)"

definition mark_incomplete :: "datetime \<Rightarrow> Task \<Rightarrow> Task" where
  "mark_incomplete now t =
     t\<lparr>completed := False, status := PENDING, completed_at := None,
       updated_at := Some (stamp now)\<rparr>"

text \<open>Truth value of an \<open>Optional[str]\<close>: neither \<open>None\<close> nor the empty string.\<close>

definition truthy :: "string option \<Rightarrow> bool" where
  "truthy s = (s \<noteq> None \<and> s \<noteq> Some [])"

definition parse_stored_date :: "string \<Rightarrow> datetime option" where
  "parse_stored_date s = fromisoformat (replace ''Z'' ''+00:00'' s)"

definition is_overdue :: "datetime \<Rightarrow> Task \<Rightarrow> bool" where
  "is_overdue now t =
     (if \<not> truthy (due_date t) \<or> completed t then False
      else case parse_stored_date (the (due_date t)) of
             None \<Rightarrow> False
           | Some due \<Rightarrow> to_us now > to_us (replace_tzinfo_None due))"

definition days_until_due :: "datetime \<Rightarrow> Task \<Rightarrow> int option" where
  "days_until_due now t =
     (if \<not> truthy (due_date t) then None
      else case parse_stored_date (the (due_date t)) of
             None \<Rightarrow> None
           | Some due \<Rightarrow> Some (delta_days (replace_tzinfo_None due) now))"

record TaskFilter =
  filter_status :: "Status option"
  filter_priority :: "Priority option"
  filter_category :: "string option"
  filter_completed :: "bool option"
  overdue_only :: bool

definition matches :: "datetime \<Rightarrow> TaskFilter \<Rightarrow> Task \<Rightarrow> bool" where
  "matches now f t =
     (if filter_status f \<noteq> None \<and> Some (status t) \<noteq> filter_status f then False
      else if filter_priority f \<noteq> None \<and> Some (priority t) \<noteq> filter_priority f then False
      else if truthy (filter_category f) \<and> Some (category t) \<noteq> filter_category f then False
      else if filter_completed f \<noteq> None \<and> Some (completed t) \<noteq> filter_completed f then False
      else if overdue_only f \<and> \<not> is_overdue now t then False
      else True)"

text \<open>
  \<open>OperationResult\<close>. The \<open>data\<close> field is \<open>Optional[Any]\<close>; the payloads that the skills
  put there are the constructors of \<open>payload\<close>.
\<close>

datatype payload =
    Task_data task_dict
  | Task_list "task_dict list"
  | Text string
  | Table "Task list"
  | Confirmation task_dict
  | Deleted task_dict
  | Due_date_set int string

record OperationResult =
  success :: bool
  message :: string
  data :: "payload option"
  error :: "string option"
  error_code :: "string option"

definition success_result :: "string \<Rightarrow> payload option \<Rightarrow> OperationResult" where
  "success_result msg d =
     \<lparr>success = True, message = msg, data = d, error = None, error_code = None\<rparr>"

definition error_result :: "string \<Rightarrow> string \<Rightarrow> OperationResult" where
  "error_result err code =
     \<lparr>success = False, message = ''Operation failed: '' @ err, data = None,
      error = Some err, error_code = Some code\<rparr>"

subsection \<open>Validation functions\<close>

definition validate_title :: "string \<Rightarrow> exn + string" where
  "validate_title raw =
     (let t = strip raw in
      if t = [] then Inl (ValueError ''Title cannot be empty'')
      else if length t > MAX_TITLE_LENGTH
        then Inl (ValueError ''Title cannot exceed 200 characters'')
      else Inr t)"

definition validate_category :: "string \<Rightarrow> exn + string" where
  "validate_category raw =
     (let c = strip raw in
      if length c > MAX_CATEGORY_LENGTH
        then Inl (ValueError ''Category cannot exceed 50 characters'')
      else Inr (if c = [] then DEFAULT_CATEGORY else c))"

definition validate_due_date :: "string \<Rightarrow> exn + string" where
  "validate_due_date raw =
     (case fromisoformat (replace ''Z'' ''+00:00'' raw) of
        None \<Rightarrow> Inl (ValueError (''Invalid date format: '' @ raw
                                  @ ''. Use YYYY-MM-DD or ISO 8601.''))
      | Some dt \<Rightarrow> Inr (replace ''+00:00'' ''Z'' (isoformat dt)))"

section \<open>Console variant: storage layer (\<open>utils/storage.py\<close>)\<close>

text \<open>
  The files the storage layer touches: \<open>todos.json\<close>, its sibling \<open>todos.json.tmp\<close> and
  the backup copies. What reading a file yields: a JSON list of task objects; a JSON
  value of another type (with the name of that type); text that is not JSON (with the
  detail that the decoder reports); a \<open>PermissionError\<close>; or another exception (with its
  text).
\<close>

datatype content =
    Json_list "task_dict list"
  | Json_other string
  | Malformed string
  | Unreadable
  | Read_fails string

record fs =
  todos :: "content option"
  tmp :: "content option"
  backups :: "(string \<times> content) list"

text \<open>
  What can go wrong during \<open>save_tasks\<close> is an argument as well: the step that raises (with
  the partial contents a failed write leaves in the temporary file), the class of the
  exception, and whether the \<open>os.remove\<close> of the clean-up fails. \<open>os.replace\<close> is the
  operating system's atomic rename: it moves the file or raises and changes nothing.
\<close>

datatype os_exn = PermissionError | OSError string | Exception string

datatype save_fault = Open_fails os_exn | Write_fails content os_exn | Replace_fails os_exn

record faults =
  save_fault :: "save_fault option"
  remove_fails :: bool

definition no_faults :: faults where
  "no_faults = \<lparr>save_fault = None, remove_fails = False\<rparr>"

definition load_tasks :: "fs \<Rightarrow> exn + task_dict list" where
  "load_tasks f =
     (case todos f of
        None \<Rightarrow> Inr []
      | Some (Json_list ts) \<Rightarrow> Inr ts
      | Some (Json_other ty) \<Rightarrow>
          Inl (StorageError (''Failed to load tasks: Corrupted todos.json: expected list, got ''
                             @ ty))
      | Some (Malformed detail) \<Rightarrow> Inl (StorageError (''Corrupted todos.json: '' @ detail))
      | Some Unreadable \<Rightarrow> Inl (StorageError ''Permission denied reading todos.json'')
      | Some (Read_fails m) \<Rightarrow> Inl (StorageError (''Failed to load tasks: '' @ m)))"

fun save_error :: "os_exn \<Rightarrow> exn" where
  "save_error PermissionError = StorageError ''Permission denied writing todos.json''"
| "save_error (OSError m) = StorageError (''Disk error: '' @ m)"
| "save_error (Exception m) = StorageError (''Failed to save tasks: '' @ m)"

text \<open>The \<open>finally\<close> clause of \<open>save_tasks\<close>.\<close>

definition cleanup :: "faults \<Rightarrow> fs \<Rightarrow> fs" where
  "cleanup fl f = (if tmp f \<noteq> None \<and> \<not> remove_fails fl then f\<lparr>tmp := None\<rparr> else f)"

definition save_tasks :: "faults \<Rightarrow> task_dict list \<Rightarrow> fs \<Rightarrow> (exn + bool) \<times> fs" where
  "save_tasks fl tasks f =
     (case save_fault fl of
        Some (Open_fails e) \<Rightarrow> (Inl (save_error e), cleanup fl f)
      | Some (Write_fails partial e) \<Rightarrow>
          (Inl (save_error e), cleanup fl (f\<lparr>tmp := Some partial\<rparr>))
      | Some (Replace_fails e) \<Rightarrow>
          (Inl (save_error e), cleanup fl (f\<lparr>tmp := Some (Json_list tasks)\<rparr>))
      | None \<Rightarrow>
          (Inr True, cleanup fl (f\<lparr>tmp := None, todos := Some (Json_list tasks)\<rparr>)))"

text \<open>\<open>max(task.get('id', 0) for task in tasks)\<close> on a non-empty list.\<close>

fun max_id :: "task_dict list \<Rightarrow> int" where
  "max_id [] = 0"
| "max_id [t] = k_id t"
| "max_id (t # u # us) = max (k_id t) (max_id (u # us))"

definition wrap :: "string \<Rightarrow> exn \<Rightarrow> exn" where
  "wrap prefix e = StorageError (prefix @ str_exn e)"

definition get_next_id :: "fs \<Rightarrow> exn + int" where
  "get_next_id f =
     (case load_tasks f of
        Inl e \<Rightarrow> Inl (wrap ''Failed to generate next ID: '' e)
      | Inr tasks \<Rightarrow> if tasks = [] then Inr 1 else Inr (max_id tasks + 1))"

definition find_task_by_id :: "fs \<Rightarrow> int \<Rightarrow> exn + task_dict option" where
  "find_task_by_id f task_id =
     (case load_tasks f of
        Inl e \<Rightarrow> Inl (wrap ''Failed to find task: '' e)
      | Inr tasks \<Rightarrow> Inr (find (\<lambda>t. k_id t = task_id) tasks))"

text \<open>
  The \<open>updates\<close> dictionary of \<open>update_task\<close>: its items in insertion order, one constructor
  for each key that the skills put there.
\<close>

datatype update =
    Set_title string
  | Set_priority string
  | Set_category string
  | Set_status string
  | Set_completed bool
  | Set_due_date "string option"
  | Set_completed_at "string option"
  | Set_updated_at "string option"

fun apply_update :: "task_dict \<Rightarrow> update \<Rightarrow> task_dict" where
  "apply_update t (Set_title v) = t\<lparr>k_title := v\<rparr>"
| "apply_update t (Set_priority v) = t\<lparr>k_priority := v\<rparr>"
| "apply_update t (Set_category v) = t\<lparr>k_category := v\<rparr>"
| "apply_update t (Set_status v) = t\<lparr>k_status := v\<rparr>"
| "apply_update t (Set_completed v) = t\<lparr>k_completed := v\<rparr>"
| "apply_update t (Set_due_date v) = t\<lparr>k_due_date := v\<rparr>"
| "apply_update t (Set_completed_at v) = t\<lparr>k_completed_at := v\<rparr>"
| "apply_update t (Set_updated_at v) = t\<lparr>k_updated_at := v\<rparr>"

text \<open>The loop of \<open>update_task\<close>: the first task with the id is updated and stamped.\<close>

fun update_first :: "datetime \<Rightarrow> int \<Rightarrow> update list \<Rightarrow> task_dict list \<Rightarrow> task_dict list option" where
  "update_first now task_id updates [] = None"
| "update_first now task_id updates (t # ts) =
     (if k_id t = task_id
      then Some ((foldl apply_update t updates)\<lparr>k_updated_at := Some (stamp now)\<rparr> # ts)
      else map_option (\<lambda>r. t # r) (update_first now task_id updates ts))"

definition storage_update_task ::
  "faults \<Rightarrow> datetime \<Rightarrow> int \<Rightarrow> update list \<Rightarrow> fs \<Rightarrow> (exn + bool) \<times> fs" where
  "storage_update_task fl now task_id updates f =
     (case load_tasks f of
        Inl e \<Rightarrow> (Inl (wrap ''Failed to update task: '' e), f)
      | Inr tasks \<Rightarrow>
          (case update_first now task_id updates tasks of
             None \<Rightarrow> (Inr False, f)
           | Some tasks' \<Rightarrow>
               (case save_tasks fl tasks' f of
                  (Inl e, f') \<Rightarrow> (Inl (wrap ''Failed to update task: '' e), f')
                | (Inr _, f') \<Rightarrow> (Inr True, f'))))"

definition storage_delete_task :: "faults \<Rightarrow> int \<Rightarrow> fs \<Rightarrow> (exn + bool) \<times> fs" where
  "storage_delete_task fl task_id f =
     (case load_tasks f of
        Inl e \<Rightarrow> (Inl (wrap ''Failed to delete task: '' e), f)
      | Inr tasks \<Rightarrow>
          (let filtered_tasks = filter (\<lambda>t. k_id t \<noteq> task_id) tasks in
           if length filtered_tasks = length tasks then (Inr False, f)
           else case save_tasks fl filtered_tasks f of
                  (Inl e, f') \<Rightarrow> (Inl (wrap ''Failed to delete task: '' e), f')
                | (Inr _, f') \<Rightarrow> (Inr True, f')))"

text \<open>
  \<open>backup_tasks\<close>: \<open>bk\<close> is the local-time stamp of the copy when the copy succeeds and
  \<open>None\<close> when it fails (the failure is printed and swallowed); a file that cannot be read
  cannot be copied.
\<close>

definition backup_tasks :: "string option \<Rightarrow> fs \<Rightarrow> string \<times> fs" where
  "backup_tasks bk f =
     (case todos f of
        None \<Rightarrow> ([], f)
      | Some Unreadable \<Rightarrow> ([], f)
      | Some (Read_fails m) \<Rightarrow> ([], f)
      | Some c \<Rightarrow>
          (case bk of
             None \<Rightarrow> ([], f)
           | Some timestamp \<Rightarrow>
               (let backup_path = ''todos.backup.'' @ timestamp @ ''.json''
                in (backup_path, f\<lparr>backups := (backup_path, c) # backups f\<rparr>))))"

section \<open>Console variant: skills\<close>

text \<open>
  The \<open>except\<close> clauses that close every skill. \<open>add_task\<close>, \<open>update_task\<close>,
  \<open>list_tasks\<close> and \<open>set_due_date\<close> have a clause for \<open>ValueError\<close>; \<open>complete_task\<close>,
  \<open>delete_task\<close> and the two scheduler queries do not, so that a \<open>ValueError\<close> reaches
  their final clause.
\<close>

fun handle :: "exn \<Rightarrow> OperationResult" where
  "handle (ValueError m) = error_result m VALIDATION_ERROR"
| "handle (StorageError m) = error_result m STORAGE_ERROR"
| "handle (OtherError m) = error_result (''Unexpected error: '' @ m) UNKNOWN_ERROR"

fun handle_no_value :: "exn \<Rightarrow> OperationResult" where
  "handle_no_value (StorageError m) = error_result m STORAGE_ERROR"
| "handle_no_value e = error_result (''Unexpected error: '' @ str_exn e) UNKNOWN_ERROR"

definition not_found :: "int \<Rightarrow> OperationResult" where
  "not_found task_id =
     error_result (''Task with ID '' @ str_int task_id @ '' not found'') NOT_FOUND"

definition update_failed :: "int \<Rightarrow> OperationResult" where
  "update_failed task_id =
     error_result (''Failed to update task #'' @ str_int task_id) STORAGE_ERROR"

subsection \<open>\<open>add_skill.add_task\<close>\<close>

text \<open>The validation phase: title, priority, category, then the due date when it is given.\<close>

definition add_validate ::
  "string \<Rightarrow> string \<Rightarrow> string \<Rightarrow> string option
   \<Rightarrow> exn + (string \<times> Priority \<times> string \<times> string option)" where
  "add_validate title' priority' category' due_date' =
     (case validate_title title' of
        Inl e \<Rightarrow> Inl e
      | Inr validated_title \<Rightarrow>
          (case Priority_from_string priority' of
             Inl e \<Rightarrow> Inl e
           | Inr priority_enum \<Rightarrow>
               (case validate_category category' of
                  Inl e \<Rightarrow> Inl e
                | Inr validated_category \<Rightarrow>
                    if truthy due_date'
                    then (case validate_due_date (the due_date') of
                            Inl e \<Rightarrow> Inl e
                          | Inr d \<Rightarrow>
                              Inr (validated_title, priority_enum, validated_category, Some d))
                    else Inr (validated_title, priority_enum, validated_category, due_date'))))"

definition add_task ::
  "faults \<Rightarrow> datetime \<Rightarrow> string \<Rightarrow> string \<Rightarrow> string \<Rightarrow> string option \<Rightarrow> fs
   \<Rightarrow> OperationResult \<times> fs" where
  "add_task fl now title' priority' category' due_date' f =
     (case add_validate title' priority' category' due_date' of
        Inl e \<Rightarrow> (handle e, f)
      | Inr (validated_title, priority_enum, validated_category, due) \<Rightarrow>
          (case get_next_id f of
             Inl e \<Rightarrow> (handle e, f)
           | Inr task_id \<Rightarrow>
               (case post_init \<lparr>id' = task_id, title = validated_title,
                                priority = priority_enum, category = validated_category,
                                status = PENDING, completed = False, created_at = stamp now,
                                updated_at = None, completed_at = None, due_date = due\<rparr> of
                  Inl e \<Rightarrow> (handle e, f)
                | Inr task \<Rightarrow>
                    (case load_tasks f of
                       Inl e \<Rightarrow> (handle e, f)
                     | Inr tasks \<Rightarrow>
                         (case save_tasks fl (tasks @ [to_dict task]) f of
                            (Inl e, f') \<Rightarrow> (handle e, f')
                          | (Inr _, f') \<Rightarrow>
                              (success_result
                                 (''Task #'' @ str_int (id' task) @ '' added successfully'')
                                 (Some (Task_data (to_dict task))), f'))))))"

subsection \<open>\<open>update_skill.update_task\<close>\<close>

text \<open>
  The \<open>updates\<close> dictionary and the \<open>changes\<close> list are built field by field; the first
  validator that raises ends the construction.
\<close>

definition build_updates ::
  "string option \<Rightarrow> string option \<Rightarrow> string option \<Rightarrow> string option \<Rightarrow> string option
   \<Rightarrow> exn + (update list \<times> string list)" where
  "build_updates title' priority' category' status' due_date' =
     (case (case title' of None \<Rightarrow> Inr ([], [])
            | Some s \<Rightarrow> (case validate_title s of Inl e \<Rightarrow> Inl e
                         | Inr v \<Rightarrow> Inr ([Set_title v], [''title'']))) of
        Inl e \<Rightarrow> Inl e
      | Inr (u1, c1) \<Rightarrow>
     (case (case priority' of None \<Rightarrow> Inr (u1, c1)
            | Some s \<Rightarrow> (case Priority_from_string s of Inl e \<Rightarrow> Inl e
                         | Inr p \<Rightarrow> Inr (u1 @ [Set_priority (Priority_value p)],
                                         c1 @ [''priority'']))) of
        Inl e \<Rightarrow> Inl e
      | Inr (u2, c2) \<Rightarrow>
     (case (case category' of None \<Rightarrow> Inr (u2, c2)
            | Some s \<Rightarrow> (case validate_category s of Inl e \<Rightarrow> Inl e
                         | Inr v \<Rightarrow> Inr (u2 @ [Set_category v], c2 @ [''category'']))) of
        Inl e \<Rightarrow> Inl e
      | Inr (u3, c3) \<Rightarrow>
     (case (case status' of None \<Rightarrow> Inr (u3, c3)
            | Some s \<Rightarrow> (case Status_from_string s of Inl e \<Rightarrow> Inl e
                         | Inr status_enum \<Rightarrow>
                             Inr (u3 @ [Set_status (Status_value status_enum)]
                                     @ (if status_enum = COMPLETED then [Set_completed True]
                                        else []),
                                  c3 @ [''status'']))) of
        Inl e \<Rightarrow> Inl e
      | Inr (u4, c4) \<Rightarrow>
     (case due_date' of None \<Rightarrow> Inr (u4, c4)
      | Some s \<Rightarrow>
          if s \<noteq> [] then (case validate_due_date s of Inl e \<Rightarrow> Inl e
                           | Inr v \<Rightarrow> Inr (u4 @ [Set_due_date (Some v)], c4 @ [''due_date'']))
          else Inr (u4 @ [Set_due_date None], c4 @ [''due_date'']))))))"

definition update_task ::
  "faults \<Rightarrow> datetime \<Rightarrow> int \<Rightarrow> string option \<Rightarrow> string option \<Rightarrow> string option
   \<Rightarrow> string option \<Rightarrow> string option \<Rightarrow> fs \<Rightarrow> OperationResult \<times> fs" where
  "update_task fl now task_id title' priority' category' status' due_date' f =
     (if \<not> (truthy title' \<or> truthy priority' \<or> truthy category' \<or> truthy status'
             \<or> truthy due_date')
      then (error_result ''No fields to update. Please specify at least one field.''
              NO_CHANGES, f)
      else case find_task_by_id f task_id of
        Inl e \<Rightarrow> (handle e, f)
      | Inr None \<Rightarrow> (not_found task_id, f)
      | Inr (Some task_dict) \<Rightarrow>
          (case build_updates title' priority' category' status' due_date' of
             Inl e \<Rightarrow> (handle e, f)
           | Inr (updates, changes) \<Rightarrow>
               (case storage_update_task fl now task_id updates f of
                  (Inl e, f') \<Rightarrow> (handle e, f')
                | (Inr False, f') \<Rightarrow> (update_failed task_id, f')
                | (Inr True, f') \<Rightarrow>
                    (case find_task_by_id f' task_id of
                       Inl e \<Rightarrow> (handle e, f')
                     | Inr updated_task \<Rightarrow>
                         (success_result
                            (''Task #'' @ str_int task_id @ '' updated successfully (''
                             @ join '', '' changes @ '' changed)'')
                            (map_option Task_data updated_task), f')))))"

subsection \<open>\<open>complete_skill.complete_task\<close>\<close>

text \<open>
  The two marks of the messages are written as their UTF-8 bytes. \<open>now\<close> is the clock
  reading of \<open>mark_completed\<close> or \<open>mark_incomplete\<close>, \<open>now'\<close> the later one of the storage
  layer's \<open>update_task\<close>.
\<close>

definition check_mark :: string where
  "check_mark = [CHR 0xE2, CHR 0x9C, CHR 0x93]"

definition circle_mark :: string where
  "circle_mark = [CHR 0xE2, CHR 0x97, CHR 0x8B]"

definition complete_action :: "datetime \<Rightarrow> bool \<Rightarrow> bool \<Rightarrow> Task \<Rightarrow> Task \<times> string" where
  "complete_action now uncomplete toggle task =
     (if toggle then
        (if completed task then (mark_incomplete now task, ''reopened'')
         else (mark_completed now task, ''completed''))
      else if uncomplete then (mark_incomplete now task, ''reopened'')
      else (mark_completed now task, ''completed''))"

definition complete_task ::
  "faults \<Rightarrow> datetime \<Rightarrow> datetime \<Rightarrow> int \<Rightarrow> bool \<Rightarrow> bool \<Rightarrow> fs \<Rightarrow> OperationResult \<times> fs" where
  "complete_task fl now now' task_id uncomplete toggle f =
     (case find_task_by_id f task_id of
        Inl e \<Rightarrow> (handle_no_value e, f)
      | Inr None \<Rightarrow> (not_found task_id, f)
      | Inr (Some task_dict) \<Rightarrow>
          (case Task_from_dict task_dict of
             Inl e \<Rightarrow> (handle_no_value e, f)
           | Inr task0 \<Rightarrow>
               (let (task, action) = complete_action now uncomplete toggle task0;
                    updates = [Set_completed (completed task),
                               Set_status (Status_value (status task)),
                               Set_completed_at (completed_at task),
                               Set_updated_at (updated_at task)]
                in case storage_update_task fl now' task_id updates f of
                     (Inl e, f') \<Rightarrow> (handle_no_value e, f')
                   | (Inr False, f') \<Rightarrow> (update_failed task_id, f')
                   | (Inr True, f') \<Rightarrow>
                       (success_result
                          ((if completed task then check_mark else circle_mark)
                           @ '' Task #'' @ str_int task_id @ '' '' @ action @ '': ''
                           @ [CHR 0x22] @ title task @ [CHR 0x22])
                          (Some (Task_data (to_dict task))), f'))))"

subsection \<open>\<open>delete_skill.delete_task\<close>\<close>

definition delete_task ::
  "faults \<Rightarrow> string option \<Rightarrow> int \<Rightarrow> bool \<Rightarrow> fs \<Rightarrow> OperationResult \<times> fs" where
  "delete_task fl bk task_id force f =
     (case find_task_by_id f task_id of
        Inl e \<Rightarrow> (handle_no_value e, f)
      | Inr None \<Rightarrow> (not_found task_id, f)
      | Inr (Some task_dict) \<Rightarrow>
          if \<not> force
          then (\<lparr>success = True, message = ''Confirmation required'',
                 data = Some (Confirmation task_dict), error = None, error_code = None\<rparr>, f)
          else
            (let (backup_path, f1) = backup_tasks bk f in
             case storage_delete_task fl task_id f1 of
               (Inl e, f') \<Rightarrow> (handle_no_value e, f')
             | (Inr False, f') \<Rightarrow>
                 (error_result (''Failed to delete task #'' @ str_int task_id) STORAGE_ERROR, f')
             | (Inr True, f') \<Rightarrow>
                 (success_result
                    (''Task #'' @ str_int task_id @ '' deleted: '' @ [CHR 0x22]
                     @ k_title task_dict @ [CHR 0x22])
                    (Some (Deleted task_dict)), f')))"

subsection \<open>\<open>list_skill.list_tasks\<close>\<close>

fun from_dicts :: "task_dict list \<Rightarrow> exn + Task list" where
  "from_dicts [] = Inr []"
| "from_dicts (d # ds) =
     (case Task_from_dict d of
        Inl e \<Rightarrow> Inl e
      | Inr t \<Rightarrow> (case from_dicts ds of Inl e \<Rightarrow> Inl e | Inr ts \<Rightarrow> Inr (t # ts)))"

text \<open>
  \<open>list.sort(key=..., reverse=...)\<close> is stable; with \<open>reverse\<close> it reverses the list, sorts
  it ascending and reverses the result, which keeps equal elements in their old order.
\<close>

definition sort_tasks_by :: "(Task \<Rightarrow> 'k::linorder) \<Rightarrow> bool \<Rightarrow> Task list \<Rightarrow> Task list" where
  "sort_tasks_by key reverse ts =
     (if reverse then rev (sort_key key (rev ts)) else sort_key key ts)"

definition or_empty :: "string option \<Rightarrow> string" where
  "or_empty v = (case v of None \<Rightarrow> [] | Some s \<Rightarrow> s)"

text \<open>
  \<open>getattr(t, sort_by)\<close> finds the ten fields, whose values are ordered (a \<open>str\<close>-based enum
  as its string value, \<open>None\<close> as the empty string), and the methods of the class, whose
  values cannot be compared: sorting two or more of them raises \<open>TypeError\<close>, which only
  the final \<open>except Exception\<close> clause of the skill catches.

  Beyond these a \<open>Task\<close> has the attributes that the object protocol and the dataclass
  decorator supply (\<open>__class__\<close>, \<open>__dict__\<close>, \<open>__doc__\<close> and others). Which names these
  are depends on the interpreter, so the table is an argument of the model: \<open>attrs name\<close>
  is \<open>None\<close> when a \<open>Task\<close> has no attribute of that name; \<open>Some Same_value\<close> when it has
  one whose value is the same on every task and can be ordered (\<open>__doc__\<close>, or a value
  of \<open>None\<close>, which the key function turns into the empty string); and
  \<open>Some (Unorderable ty)\<close> when its values, of type \<open>ty\<close>, do not support \<open><\<close>
  (\<open>__class__\<close>, \<open>__dict__\<close>). For a name that is no attribute at all \<open>getattr\<close> raises
  the \<open>AttributeError\<close> that the inner \<open>except\<close> clause swallows, leaving the list as it
  was; equal keys leave it as it was too, the sort being stable.
\<close>

datatype attr_kind = Same_value | Unorderable string

text \<open>The text of the \<open>TypeError\<close> for two values of type \<open>ty\<close>.\<close>

definition not_supported :: "string \<Rightarrow> string" where
  "not_supported ty =
     [CHR 0x27] @ ''<'' @ [CHR 0x27] @ '' not supported between instances of ''
     @ [CHR 0x27] @ ty @ [CHR 0x27] @ '' and '' @ [CHR 0x27] @ ty @ [CHR 0x27]"

definition task_fields :: "string list" where
  "task_fields = [''id'', ''title'', ''priority'', ''category'', ''status'', ''completed'',
                  ''created_at'', ''updated_at'', ''completed_at'', ''due_date'']"

definition task_methods :: "string list" where
  "task_methods = [''to_dict'', ''from_dict'', ''mark_completed'', ''mark_incomplete'',
                   ''update_fields'', ''is_overdue'', ''days_until_due'']"

definition sort_tasks ::
  "(string \<Rightarrow> attr_kind option) \<Rightarrow> string \<Rightarrow> bool \<Rightarrow> Task list \<Rightarrow> exn + Task list" where
  "sort_tasks attrs sort_by reverse ts =
     (if sort_by = ''id'' then Inr (sort_tasks_by id' reverse ts)
      else if sort_by = ''title'' then Inr (sort_tasks_by title reverse ts)
      else if sort_by = ''priority''
        then Inr (sort_tasks_by (\<lambda>t. Priority_value (priority t)) reverse ts)
      else if sort_by = ''category'' then Inr (sort_tasks_by category reverse ts)
      else if sort_by = ''status''
        then Inr (sort_tasks_by (\<lambda>t. Status_value (status t)) reverse ts)
      else if sort_by = ''completed'' then Inr (sort_tasks_by completed reverse ts)
      else if sort_by = ''created_at'' then Inr (sort_tasks_by created_at reverse ts)
      else if sort_by = ''updated_at''
        then Inr (sort_tasks_by (\<lambda>t. or_empty (updated_at t)) reverse ts)
      else if sort_by = ''completed_at''
        then Inr (sort_tasks_by (\<lambda>t. or_empty (completed_at t)) reverse ts)
      else if sort_by = ''due_date''
        then Inr (sort_tasks_by (\<lambda>t. or_empty (due_date t)) reverse ts)
      else if sort_by \<in> set task_methods
        then (if length ts < 2 then Inr ts
              else Inl (OtherError (not_supported ''method'')))
      else (case attrs sort_by of
              None \<Rightarrow> Inr ts
            | Some Same_value \<Rightarrow> Inr ts
            | Some (Unorderable ty) \<Rightarrow>
                if length ts < 2 then Inr ts else Inl (OtherError (not_supported ty))))"

definition simple_line :: "Task \<Rightarrow> string" where
  "simple_line t =
     str_int (id' t) @ ''. ['' @ (if completed t then check_mark else circle_mark) @ ''] ''
     @ title t @ '' ('' @ Priority_value (priority t) @ '')''
     @ (if truthy (due_date t) then '' - Due: '' @ the (due_date t) else [])"

definition format_output :: "string \<Rightarrow> Task list \<Rightarrow> OperationResult" where
  "format_output output_format ts =
     (let msg = ''Showing '' @ str_int (int (length ts)) @ '' tasks'' in
      if output_format = ''json'' then success_result msg (Some (Task_list (map to_dict ts)))
      else if output_format = ''simple''
        then success_result msg
               (Some (Text (if ts \<noteq> [] then join [CHR 0x0A] (map simple_line ts)
                            else ''No tasks found.'')))
      else success_result msg (Some (Table ts)))"

text \<open>\<open>if limit and limit > 0: filtered_tasks = filtered_tasks[:limit]\<close>.\<close>

definition apply_limit :: "int option \<Rightarrow> 'a list \<Rightarrow> 'a list" where
  "apply_limit limit xs =
     (case limit of
        None \<Rightarrow> xs
      | Some n \<Rightarrow> if n \<noteq> 0 \<and> n > 0 then take (nat n) xs else xs)"

definition build_filter ::
  "string option \<Rightarrow> string option \<Rightarrow> string option \<Rightarrow> bool option \<Rightarrow> bool
   \<Rightarrow> exn + TaskFilter" where
  "build_filter status' priority' category' completed' overdue_only' =
     (case (if truthy status' \<and> status' \<noteq> Some ''all''
            then map_sum id Some (Status_from_string (the status')) else Inr None) of
        Inl e \<Rightarrow> Inl e
      | Inr fs' \<Rightarrow>
          (case (if truthy priority' \<and> priority' \<noteq> Some ''all''
                 then map_sum id Some (Priority_from_string (the priority')) else Inr None) of
             Inl e \<Rightarrow> Inl e
           | Inr fp \<Rightarrow>
               Inr \<lparr>filter_status = fs', filter_priority = fp,
                    filter_category = (if truthy category' \<and> category' \<noteq> Some ''all''
                                       then category' else None),
                    filter_completed = completed', overdue_only = overdue_only'\<rparr>))"

definition list_tasks ::
  "(string \<Rightarrow> attr_kind option) \<Rightarrow> datetime \<Rightarrow> string option \<Rightarrow> string option \<Rightarrow> string option \<Rightarrow> bool option \<Rightarrow> bool
   \<Rightarrow> string \<Rightarrow> string \<Rightarrow> int option \<Rightarrow> string \<Rightarrow> fs \<Rightarrow> OperationResult" where
  "list_tasks attrs now status' priority' category' completed' overdue_only' sort_by sort_order
     limit output_format f =
     (case load_tasks f of
        Inl e \<Rightarrow> handle e
      | Inr task_dicts \<Rightarrow>
          (case from_dicts task_dicts of
             Inl e \<Rightarrow> handle e
           | Inr tasks \<Rightarrow>
               (case build_filter status' priority' category' completed' overdue_only' of
                  Inl e \<Rightarrow> handle e
                | Inr task_filter \<Rightarrow>
                    (case sort_tasks attrs sort_by (sort_order = ''desc'')
                            (filter (matches now task_filter) tasks) of
                       Inl e \<Rightarrow> handle e
                     | Inr sorted_tasks \<Rightarrow>
                         format_output output_format (apply_limit limit sorted_tasks)))))"

subsection \<open>\<open>scheduler_skill\<close>\<close>

definition set_due_date ::
  "faults \<Rightarrow> datetime \<Rightarrow> int \<Rightarrow> string \<Rightarrow> fs \<Rightarrow> OperationResult \<times> fs" where
  "set_due_date fl now task_id due_date' f =
     (case find_task_by_id f task_id of
        Inl e \<Rightarrow> (handle e, f)
      | Inr None \<Rightarrow> (not_found task_id, f)
      | Inr (Some task_dict) \<Rightarrow>
          (case validate_due_date due_date' of
             Inl e \<Rightarrow> (handle e, f)
           | Inr validated_due_date \<Rightarrow>
               (case storage_update_task fl now task_id
                       [Set_due_date (Some validated_due_date)] f of
                  (Inl e, f') \<Rightarrow> (handle e, f')
                | (Inr False, f') \<Rightarrow> (update_failed task_id, f')
                | (Inr True, f') \<Rightarrow>
                    (success_result (''Due date set for task #'' @ str_int task_id)
                       (Some (Due_date_set task_id validated_due_date)), f'))))"

text \<open>The test of the loop of \<open>get_upcoming_tasks\<close>: does the task go into \<open>upcoming\<close>?\<close>

definition is_upcoming :: "datetime \<Rightarrow> int \<Rightarrow> Task \<Rightarrow> bool" where
  "is_upcoming now days t =
     (if completed t \<or> \<not> truthy (due_date t) then False
      else case parse_stored_date (the (due_date t)) of
             None \<Rightarrow> False
           | Some due \<Rightarrow>
               (let days_until = delta_days (replace_tzinfo_None due) now
                in 0 \<le> days_until \<and> days_until \<le> days))"

definition get_upcoming_tasks :: "datetime \<Rightarrow> int \<Rightarrow> fs \<Rightarrow> OperationResult" where
  "get_upcoming_tasks now days f =
     (case load_tasks f of
        Inl e \<Rightarrow> handle_no_value e
      | Inr task_dicts \<Rightarrow>
          (case from_dicts task_dicts of
             Inl e \<Rightarrow> handle_no_value e
           | Inr tasks \<Rightarrow>
               (let upcoming = sort_key (\<lambda>t. or_empty (due_date t))
                                 (filter (is_upcoming now days) tasks)
                in success_result
                     (''Found '' @ str_int (int (length upcoming)) @ '' upcoming tasks'')
                     (Some (Task_list (map to_dict upcoming))))))"

definition priority_rank :: "Priority \<Rightarrow> int" where
  "priority_rank p =
     (case map_of [(''high'', 0), (''medium'', 1), (''low'', 2)] (Priority_value p) of
        Some r \<Rightarrow> r
      | None \<Rightarrow> 3)"

definition get_overdue_tasks :: "datetime \<Rightarrow> fs \<Rightarrow> OperationResult" where
  "get_overdue_tasks now f =
     (case load_tasks f of
        Inl e \<Rightarrow> handle_no_value e
      | Inr task_dicts \<Rightarrow>
          (case from_dicts task_dicts of
             Inl e \<Rightarrow> handle_no_value e
           | Inr tasks \<Rightarrow>
               (let overdue = sort_key
                       (\<lambda>t. (priority_rank (priority t),
                             (case days_until_due now t of None \<Rightarrow> 0 | Some n \<Rightarrow> n)))
                       (filter (is_overdue now) tasks)
                in success_result
                     (''Found '' @ str_int (int (length overdue)) @ '' overdue tasks'')
                     (Some (Task_list (map to_dict overdue))))))"

section \<open>Sequences of operations and example values\<close>

text \<open>
  A create or a forced delete, each with the environment it runs in. \<open>exec\<close> is defined
  on successful operations only and returns the id that a create assigned.
\<close>

datatype command =
    Create faults datetime string string string "string option"
  | Delete faults "string option" int

fun exec :: "command \<Rightarrow> fs \<Rightarrow> (int option \<times> fs) option" where
  "exec (Create fl now title' priority' category' due_date') f =
     (case add_task fl now title' priority' category' due_date' f of
        (r, f') \<Rightarrow>
          if success r
          then (case data r of
                  Some (Task_data d) \<Rightarrow> Some (Some (k_id d), f')
                | _ \<Rightarrow> None)
          else None)"
| "exec (Delete fl bk task_id) f =
     (case delete_task fl bk task_id True f of
        (r, f') \<Rightarrow> if success r then Some (None, f') else None)"

fun run :: "command list \<Rightarrow> fs \<Rightarrow> (int list \<times> fs) option" where
  "run [] f = Some ([], f)"
| "run (c # cs) f =
     (case exec c f of
        None \<Rightarrow> None
      | Some (i, f') \<Rightarrow>
          (case run cs f' of
             None \<Rightarrow> None
           | Some (ids, f'') \<Rightarrow> Some ((case i of None \<Rightarrow> [] | Some n \<Rightarrow> [n]) @ ids, f'')))"

fun is_create :: "command \<Rightarrow> bool" where
  "is_create (Create fl now title' priority' category' due_date') = True"
| "is_create (Delete fl bk task_id) = False"

definition empty_fs :: fs where
  "empty_fs = \<lparr>todos = None, tmp = None, backups = []\<rparr>"

definition clock0 :: datetime where
  "clock0 = \<lparr>year = 2024, month = 1, day = 15, hour = 10, minute = 0, second = 0,
              microsecond = 0, tzinfo = None\<rparr>"

definition clock1 :: datetime where
  "clock1 = clock0\<lparr>hour := 11\<rparr>"


definition stored :: "fs \<Rightarrow> task_dict list" where
  "stored f = (case load_tasks f of Inl e \<Rightarrow> [] | Inr ts \<Rightarrow> ts)"

text \<open>
  Two stores reached from the empty one: after \<open>add_task("Buy milk")\<close>, and after the task
  has then been completed with \<open>complete_task(1)\<close>.
\<close>

definition store1 :: fs where
  "store1 = snd (add_task no_faults clock0 ''Buy milk'' ''medium'' ''general'' None empty_fs)"

definition store1_completed :: fs where
  "store1_completed = snd (complete_task no_faults clock1 clock1 1 False False store1)"

text \<open>
  The store after \<open>add_task("Write report", category="work")\<close> and
  \<open>add_task("Water plants", category="home")\<close>, and the store after
  \<open>add_task("Pay rent", due_date="2024-01-18")\<close>; and what a list payload holds.
\<close>

definition store2 :: fs where
  "store2 = snd (add_task no_faults clock0 ''Water plants'' ''medium'' ''home'' None
              (snd (add_task no_faults clock0 ''Write report'' ''medium'' ''work'' None
                      empty_fs)))"

definition store_due :: fs where
  "store_due = snd (add_task no_faults clock0 ''Pay rent'' ''medium'' ''general''
                      (Some ''2024-01-18'') empty_fs)"

text \<open>
  An excerpt of the attribute table, for the examples: three names that every
  interpreter supplies. The examples sort by names that are not in any such table.
\<close>

definition attrs_excerpt :: "string \<Rightarrow> attr_kind option" where
  "attrs_excerpt name =
     (if name = ''__class__'' then Some (Unorderable ''type'')
      else if name = ''__dict__'' then Some (Unorderable ''dict'')
      else if name = ''__doc__'' then Some Same_value
      else None)"

fun listed :: "payload option \<Rightarrow> task_dict list" where
  "listed (Some (Task_list ds)) = ds"
| "listed (Some (Table ts)) = map to_dict ts"
| "listed _ = []"

text \<open>
  The shape that the results of the skills have: the message is always there; a success
  carries data and neither error nor code; a failure carries error and code, no data, and
  the message \<open>Operation failed: <error>\<close>.
\<close>

definition result_shape :: "OperationResult \<Rightarrow> bool" where
  "result_shape r =
     (message r \<noteq> []
      \<and> (if success r
         then data r \<noteq> None \<and> error r = None \<and> error_code r = None
         else data r = None \<and> error r \<noteq> None \<and> error_code r \<noteq> None
              \<and> message r = ''Operation failed: '' @ the (error r)))"

section \<open>Properties of the web validation skill\<close>

lemma strip_replicate_space: "strip (replicate n (CHR '' '')) = ''''"
proof -
  have sp: "isspace (CHR '' '')" by (simp add: isspace_def)
  have "dropWhile isspace (replicate n (CHR '' '')) = []"
    using sp by (induction n) simp_all
  then show ?thesis by (simp add: strip_def lstrip_def rstrip_def)
qed

text \<open>
  C10 as stated fails: a title of 501 spaces has trimmed length 0 and raw length 501, and
  the whitespace rule, which is checked first, rejects it with the empty-title message.
\<close>

theorem validate_task_title_raw_length_counterexample:
  "length (strip (replicate 501 (CHR '' ''))) \<le> 500
   \<and> length (replicate 501 (CHR '' '')) > 500
   \<and> validate_task_title (Some (replicate 501 (CHR '' '')))
       \<noteq> (False, Some ''Title cannot exceed 500 characters'')"
proof -
  have ne: "replicate 501 (CHR '' '') \<noteq> ''''" by simp
  show ?thesis
    using ne by (simp add: validate_task_title_def strip_replicate_space)
qed

text \<open>
  C10 (amended): the 500-character limit is checked against the raw string. Every title
  whose trimmed form is non-empty and whose raw length exceeds 500 is rejected with the
  too-long message, whatever the length of the trimmed form.
\<close>

theorem validate_task_title_raw_length:
  assumes "strip t \<noteq> ''''" and "length t > 500"
  shows "validate_task_title (Some t) = (False, Some ''Title cannot exceed 500 characters'')"
proof -
  from assms(2) have "t \<noteq> ''''" by auto
  with assms show ?thesis by (simp add: validate_task_title_def)
qed

lemma strip_pad_a: "strip (CHR '' '' # replicate n (CHR ''a'')) = replicate n (CHR ''a'')"
proof -
  have na: "\<not> isspace (CHR ''a'')" by (simp add: isspace_def)
  have sp: "isspace (CHR '' '')" by (simp add: isspace_def)
  have d: "dropWhile isspace (replicate n (CHR ''a'')) = replicate n (CHR ''a'')"
    using na by (cases n) simp_all
  show ?thesis
    using sp d by (simp add: strip_def lstrip_def rstrip_def)
qed

theorem validate_task_title_raw_length_witness:
  "strip (CHR '' '' # replicate 500 (CHR ''a'')) \<noteq> ''''
   \<and> length (strip (CHR '' '' # replicate 500 (CHR ''a''))) \<le> 500
   \<and> length (CHR '' '' # replicate 500 (CHR ''a'')) > 500
   \<and> validate_task_title (Some (CHR '' '' # replicate 500 (CHR ''a'')))
       = (False, Some ''Title cannot exceed 500 characters'')"
proof -
  have a: "strip (CHR '' '' # replicate 500 (CHR ''a'')) \<noteq> ''''"
    by (simp add: strip_pad_a)
  have b: "length (CHR '' '' # replicate 500 (CHR ''a'')) > 500" by simp
  show ?thesis
    using a b validate_task_title_raw_length [OF a b] by (simp add: strip_pad_a)
qed

section \<open>Properties of the storage layer\<close>

lemma save_error_is_storage_error: "\<exists>m. save_error e = StorageError m"
  by (cases e) simp_all

text \<open>
  C2: \<open>save_tasks\<close> is all-or-nothing. Without a failure it returns \<open>True\<close>, the canonical
  file holds the full collection and no temporary file is left. With a failure at any step
  up to and including the rename it raises \<open>StorageError\<close> and the canonical file keeps its
  prior contents. The temporary file is gone afterwards whenever its removal does not
  itself fail, and the backups are never touched.
\<close>

theorem save_tasks_all_or_nothing:
  assumes "save_tasks fl tasks f = (r, f')"
  shows "(save_fault fl = None \<longrightarrow>
            r = Inr True \<and> todos f' = Some (Json_list tasks) \<and> tmp f' = None)
         \<and> (save_fault fl \<noteq> None \<longrightarrow> (\<exists>m. r = Inl (StorageError m)) \<and> todos f' = todos f)
         \<and> (\<not> remove_fails fl \<longrightarrow> tmp f' = None)
         \<and> backups f' = backups f"
proof (cases "save_fault fl")
  case None
  with assms show ?thesis by (auto simp: save_tasks_def cleanup_def)
next
  case (Some sf)
  show ?thesis
  proof (cases sf)
    case (Open_fails e)
    with Some assms save_error_is_storage_error [of e] show ?thesis
      by (auto simp: save_tasks_def cleanup_def)
  next
    case (Write_fails c e)
    with Some assms save_error_is_storage_error [of e] show ?thesis
      by (auto simp: save_tasks_def cleanup_def)
  next
    case (Replace_fails e)
    with Some assms save_error_is_storage_error [of e] show ?thesis
      by (auto simp: save_tasks_def cleanup_def)
  qed
qed

text \<open>
  The witness interrupts a save after the temporary write and before the rename, on a
  store that holds one task and a stale temporary file.
\<close>

theorem save_tasks_all_or_nothing_witness:
  "fst (save_tasks \<lparr>save_fault = Some (Replace_fails (OSError ''disk full'')),
                    remove_fails = False\<rparr> []
          \<lparr>todos = Some (Json_list (stored (snd (add_task no_faults clock0 ''Buy milk''
                                                   ''medium'' ''general'' None empty_fs)))),
           tmp = Some (Malformed ''Expecting value''), backups = []\<rparr>)
     = Inl (StorageError ''Disk error: disk full'')
   \<and> todos (snd (save_tasks \<lparr>save_fault = Some (Replace_fails (OSError ''disk full'')),
                    remove_fails = False\<rparr> []
          \<lparr>todos = Some (Json_list (stored (snd (add_task no_faults clock0 ''Buy milk''
                                                   ''medium'' ''general'' None empty_fs)))),
           tmp = Some (Malformed ''Expecting value''), backups = []\<rparr>))
     = Some (Json_list (stored (snd (add_task no_faults clock0 ''Buy milk''
                                        ''medium'' ''general'' None empty_fs))))
   \<and> tmp (snd (save_tasks \<lparr>save_fault = Some (Replace_fails (OSError ''disk full'')),
                    remove_fails = False\<rparr> []
          \<lparr>todos = Some (Json_list (stored (snd (add_task no_faults clock0 ''Buy milk''
                                                   ''medium'' ''general'' None empty_fs)))),
           tmp = Some (Malformed ''Expecting value''), backups = []\<rparr>)) = None"
  using save_tasks_all_or_nothing
    [of "\<lparr>save_fault = Some (Replace_fails (OSError ''disk full'')), remove_fails = False\<rparr>"
        "[]"
        "\<lparr>todos = Some (Json_list (stored (snd (add_task no_faults clock0 ''Buy milk''
                                                   ''medium'' ''general'' None empty_fs)))),
          tmp = Some (Malformed ''Expecting value''), backups = []\<rparr>",
     OF prod.collapse [symmetric]]
  by (simp add: save_tasks_def)

section \<open>Properties of id assignment\<close>

lemma success_error_result [simp]: "success (error_result e c) = False"
  by (simp add: error_result_def)

lemma success_handle [simp]: "success (handle e) = False"
  by (cases e) simp_all

lemma success_handle_no_value [simp]: "success (handle_no_value e) = False"
  by (cases e) simp_all

lemma success_not_found [simp]: "success (not_found i) = False"
  by (simp add: not_found_def)

lemma save_tasks_Inr:
  "save_tasks fl tasks f = (Inr b, f') \<Longrightarrow> todos f' = Some (Json_list tasks)"
  by (auto simp: save_tasks_def cleanup_def split: option.splits save_fault.splits)

lemma load_after_save:
  "save_tasks fl tasks f = (Inr b, f') \<Longrightarrow> load_tasks f' = Inr tasks"
  by (simp add: load_tasks_def save_tasks_Inr)

lemma post_init_id: "post_init t = Inr t' \<Longrightarrow> id' t' = id' t"
  by (auto simp: post_init_def Let_def split: if_splits)

lemma add_task_success:
  assumes "add_task fl now ti p c d f = (r, f')" and "success r"
  shows "\<exists>ts t. load_tasks f = Inr ts \<and> data r = Some (Task_data t)
           \<and> k_id t = (if ts = [] then 1 else max_id ts + 1)
           \<and> load_tasks f' = Inr (ts @ [t])"
proof -
  from assms obtain vt pe vc du nid task ts b where
    v: "add_validate ti p c d = Inr (vt, pe, vc, du)" and
    g: "get_next_id f = Inr nid" and
    pi: "post_init \<lparr>id' = nid, title = vt, priority = pe, category = vc, status = PENDING,
            completed = False, created_at = stamp now, updated_at = None,
            completed_at = None, due_date = du\<rparr> = Inr task" and
    l: "load_tasks f = Inr ts" and
    s: "save_tasks fl (ts @ [to_dict task]) f = (Inr b, f')" and
    r: "r = success_result (''Task #'' @ str_int (id' task) @ '' added successfully'')
              (Some (Task_data (to_dict task)))"
    by (auto simp: add_task_def split: sum.splits prod.splits)
  from g l have nid: "nid = (if ts = [] then 1 else max_id ts + 1)"
    by (auto simp: get_next_id_def split: if_splits)
  from post_init_id [OF pi] have "k_id (to_dict task) = nid" by (simp add: to_dict_def)
  with nid l r load_after_save [OF s] show ?thesis
    by (auto simp: success_result_def)
qed

lemma max_id_ge: "t \<in> set ts \<Longrightarrow> k_id t \<le> max_id ts"
  by (induction ts rule: max_id.induct) auto

lemma max_id_append: "ts \<noteq> [] \<Longrightarrow> max_id (ts @ [t]) = max (max_id ts) (k_id t)"
  by (induction ts rule: max_id.induct) auto


lemma max_id_upto:
  assumes "ts \<noteq> []" and "map k_id ts = [1..int (length ts)]"
  shows "max_id ts = int (length ts)"
proof -
  have "last ts \<in> set ts" using assms(1) by simp
  moreover have "k_id (last ts) = last (map k_id ts)" using assms(1) by (simp add: last_map)
  moreover have "last [1..int (length ts)] = int (length ts)"
    using assms(1) by (cases ts rule: rev_cases) (simp_all add: upto_rec2)
  ultimately have ge: "int (length ts) \<le> max_id ts"
    using max_id_ge [of "last ts" ts] assms(2) by simp
  have "\<forall>t \<in> set ts. k_id t \<le> int (length ts)"
  proof
    fix t assume "t \<in> set ts"
    then have "k_id t \<in> set (map k_id ts)" by simp
    then show "k_id t \<le> int (length ts)" using assms(2) by simp
  qed
  moreover have "ts \<noteq> [] \<Longrightarrow> \<exists>t \<in> set ts. max_id ts = k_id t" for ts
    by (induction ts rule: max_id.induct) (auto simp: max_def)
  ultimately have "max_id ts \<le> int (length ts)" using assms(1) by metis
  with ge show ?thesis by simp
qed

lemma exec_create:
  assumes "exec (Create fl now ti p c d) f = Some (i, f')"
  shows "\<exists>ts t. load_tasks f = Inr ts \<and> i = Some (k_id t)
           \<and> k_id t = (if ts = [] then 1 else max_id ts + 1)
           \<and> load_tasks f' = Inr (ts @ [t])"
proof -
  obtain r g where a: "add_task fl now ti p c d f = (r, g)" by (cases "add_task fl now ti p c d f")
  with assms have s: "success r" by (auto split: if_splits)
  from add_task_success [OF a s] obtain ts t where
    *: "load_tasks f = Inr ts" "data r = Some (Task_data t)"
       "k_id t = (if ts = [] then 1 else max_id ts + 1)" "load_tasks g = Inr (ts @ [t])"
    by blast
  with assms a s have "i = Some (k_id t)" "f' = g" by auto
  with * show ?thesis by blast
qed

lemma run_creates:
  "run cs f = Some (ids, g) \<Longrightarrow> list_all is_create cs \<Longrightarrow> load_tasks f = Inr ts
   \<Longrightarrow> map k_id ts = [1..int (length ts)]
   \<Longrightarrow> ids = [int (length ts) + 1..int (length ts) + int (length cs)]"
proof (induction cs arbitrary: f ids ts)
  case Nil
  then show ?case by simp
next
  case (Cons c cs)
  from Cons.prems(2) obtain fl now ti p ca d where c: "c = Create fl now ti p ca d"
    by (cases c) auto
  from Cons.prems(1) obtain i f' ids' where
    e: "exec c f = Some (i, f')" and r: "run cs f' = Some (ids', g)" and
    ids: "ids = (case i of None \<Rightarrow> [] | Some n \<Rightarrow> [n]) @ ids'"
    by (auto split: option.splits prod.splits)
  from exec_create [OF e [unfolded c]] Cons.prems(3) obtain t where
    t: "i = Some (k_id t)" "k_id t = (if ts = [] then 1 else max_id ts + 1)"
       "load_tasks f' = Inr (ts @ [t])"
    by auto
  have kt: "k_id t = int (length ts) + 1"
    using t(2) max_id_upto [OF _ Cons.prems(4)] by (cases "ts = []") simp_all
  have inv: "map k_id (ts @ [t]) = [1..int (length (ts @ [t]))]"
    using Cons.prems(4) kt by (simp add: upto_rec2 add.commute)
  from Cons.IH [OF r _ t(3) inv] Cons.prems(2)
  have "ids' = [int (length ts) + 2..int (length ts) + 1 + int (length cs)]"
    by (simp add: add.commute add.left_commute)
  moreover have "[int (length ts) + 1..int (length ts) + int (length (c # cs))]
      = (int (length ts) + 1) # [int (length ts) + 2..int (length ts) + 1 + int (length cs)]"
  proof -
    have le: "int (length ts) + 1 \<le> int (length ts) + int (length (c # cs))" by simp
    have a: "int (length ts) + 1 + 1 = int (length ts) + 2" by simp
    have b: "int (length ts) + int (length (c # cs)) = int (length ts) + 1 + int (length cs)"
      by simp
    show ?thesis using upto_rec1 [OF le] unfolding a b .
  qed
  ultimately show ?case using ids t(1) kt by simp
qed


lemma stored_load: "load_tasks f = Inr ts \<Longrightarrow> stored f = ts"
  by (simp add: stored_def)

text \<open>
  C1 as stated fails: the id of a deleted task is assigned again when it was the largest.
  Create, delete 1, create: both creates are assigned the id 1.
\<close>

theorem deleted_id_reused_counterexample:
  "map_option fst
     (run [Create no_faults clock0 ''Buy milk'' ''medium'' ''general'' None,
           Delete no_faults None 1,
           Create no_faults clock1 ''Call Bob'' ''medium'' ''general'' None] empty_fs)
   = Some [1, 1]"
  by code_simp

text \<open>
  C1 (amended): the id that a successful create assigns is one more than the largest id
  in the store at that moment (1 for an empty store); it is therefore larger than the id
  of every task then stored, and the new task is appended with it. After \<open>N\<close> successful
  creates with no delete in between, on an initially empty store, the assigned ids are
  \<open>1, ..., N\<close> in this order.
\<close>

theorem assigned_id_is_max_plus_one:
  "(exec (Create fl now ti p c d) f = Some (i, f') \<longrightarrow>
      (\<exists>n. i = Some n
         \<and> n = (if stored f = [] then 1 else max_id (stored f) + 1)
         \<and> (\<forall>t \<in> set (stored f). k_id t < n)
         \<and> map k_id (stored f') = map k_id (stored f) @ [n]))
   \<and> (run cs empty_fs = Some (ids, g) \<and> list_all is_create cs \<longrightarrow>
        ids = [1..int (length cs)])"
proof (intro conjI impI)
  assume e: "exec (Create fl now ti p c d) f = Some (i, f')"
  from exec_create [OF e] obtain ts t where
    *: "load_tasks f = Inr ts" "i = Some (k_id t)"
       "k_id t = (if ts = [] then 1 else max_id ts + 1)" "load_tasks f' = Inr (ts @ [t])"
    by blast
  have "\<forall>u \<in> set ts. k_id u < k_id t"
  proof
    fix u assume u: "u \<in> set ts"
    then have "ts \<noteq> []" by auto
    with max_id_ge [OF u] *(3) show "k_id u < k_id t" by simp
  qed
  with * show "\<exists>n. i = Some n
         \<and> n = (if stored f = [] then 1 else max_id (stored f) + 1)
         \<and> (\<forall>t \<in> set (stored f). k_id t < n)
         \<and> map k_id (stored f') = map k_id (stored f) @ [n]"
    by (simp add: stored_load)
next
  assume a: "run cs empty_fs = Some (ids, g) \<and> list_all is_create cs"
  have l: "load_tasks empty_fs = Inr []" by (simp add: load_tasks_def empty_fs_def)
  from run_creates [OF _ _ l, of cs ids g] a show "ids = [1..int (length cs)]" by simp
qed

theorem assigned_id_is_max_plus_one_witness:
  "fst (the (exec (Create no_faults clock0 ''Buy milk'' ''medium'' ''general'' None) empty_fs))
     = Some 1
   \<and> map_option fst
       (run [Create no_faults clock0 ''Buy milk'' ''medium'' ''general'' None,
             Create no_faults clock1 ''Call Bob'' ''medium'' ''general'' None] empty_fs)
     = Some [1, 2]"
proof -
  let ?c = "Create no_faults clock0 ''Buy milk'' ''medium'' ''general'' None"
  let ?cs = "[?c, Create no_faults clock1 ''Call Bob'' ''medium'' ''general'' None]"
  have 1: "exec ?c empty_fs = Some (fst (the (exec ?c empty_fs)), snd (the (exec ?c empty_fs)))"
    by code_simp
  have 2: "run ?cs empty_fs = Some (fst (the (run ?cs empty_fs)), snd (the (run ?cs empty_fs)))"
    by code_simp
  have 3: "list_all is_create ?cs" by simp
  have 4: "stored empty_fs = []" by (simp add: stored_def load_tasks_def empty_fs_def)
  have 5: "[1..int (length ?cs)] = [1, 2]" by (simp add: upto_rec1)
  from assigned_id_is_max_plus_one [of no_faults clock0 "''Buy milk''" "''medium''" "''general''" None empty_fs
      "fst (the (exec ?c empty_fs))" "snd (the (exec ?c empty_fs))" ?cs
      "fst (the (run ?cs empty_fs))" "snd (the (run ?cs empty_fs))"] 1 2 3 4 5
  have "fst (the (exec ?c empty_fs)) = Some 1" and "fst (the (run ?cs empty_fs)) = [1, 2]"
    by auto
  with 2 show ?thesis by (metis fst_conv option.simps(9))
qed


section \<open>Properties of \<open>update_task\<close>\<close>

text \<open>
  C3: \<open>update_task(id=1, title="")\<close> on the store that holds task 1. The truth-value test
  that opens the skill takes the empty title for a missing one: the call fails with
  \<open>NO_CHANGES_PROVIDED\<close> and never reaches \<open>validate_title\<close>, whose error carries the code
  \<open>VALIDATION_ERROR\<close> (as the same empty title does when another field comes with it).
  The store, and with it what \<open>find_task_by_id(1)\<close> returns, is unchanged.
\<close>

theorem update_task_empty_title_reports_no_changes:
  "fst (update_task no_faults clock1 1 (Some []) None None None None store1)
     = error_result ''No fields to update. Please specify at least one field.''
         ''NO_CHANGES_PROVIDED''
   \<and> error_code (fst (update_task no_faults clock1 1 (Some []) None None None None store1))
       \<noteq> Some VALIDATION_ERROR
   \<and> snd (update_task no_faults clock1 1 (Some []) None None None None store1) = store1
   \<and> map_sum id (map_option k_title) (find_task_by_id store1 1) = Inr (Some ''Buy milk'')
   \<and> validate_title [] = Inl (ValueError ''Title cannot be empty'')
   \<and> fst (update_task no_faults clock1 1 (Some []) (Some ''high'') None None None store1)
       = error_result ''Title cannot be empty'' ''VALIDATION_ERROR''"
  by code_simp

text \<open>
  C4: \<open>update_task(1, status="pending")\<close> on the store where task 1 has been completed.
  Before the update the stored task has status \<open>completed\<close> and \<open>completed = True\<close>; the
  update succeeds and leaves status \<open>pending\<close> with \<open>completed = True\<close>.
\<close>

theorem update_task_status_pending_keeps_completed:
  "map (\<lambda>d. (k_id d, k_status d, k_completed d)) (stored store1_completed)
     = [(1, ''completed'', True)]
   \<and> success (fst (update_task no_faults clock1 1 None None None (Some ''pending'') None
                     store1_completed))
   \<and> map (\<lambda>d. (k_id d, k_status d, k_completed d))
          (stored (snd (update_task no_faults clock1 1 None None None (Some ''pending'') None
                          store1_completed)))
     = [(1, ''pending'', True)]"
  by code_simp

section \<open>Properties of the result envelope\<close>

lemma shape_error_result [simp]: "result_shape (error_result e c)"
  by (simp add: result_shape_def error_result_def)

lemma shape_handle [simp]: "result_shape (handle e)"
  by (cases e) simp_all

lemma shape_handle_no_value [simp]: "result_shape (handle_no_value e)"
  by (cases e) simp_all

lemma shape_not_found [simp]: "result_shape (not_found i)"
  by (simp add: not_found_def)

lemma shape_update_failed [simp]: "result_shape (update_failed i)"
  by (simp add: update_failed_def)

lemma shape_success_result [simp]: "m \<noteq> [] \<Longrightarrow> result_shape (success_result m (Some d))"
  by (simp add: result_shape_def success_result_def)

lemma shape_add_task: "result_shape (fst (add_task fl now ti p c d f))"
  by (simp add: add_task_def split: sum.splits prod.splits)

lemma k_id_apply_update [simp]: "k_id (apply_update t u) = k_id t"
  by (cases u) simp_all

lemma k_id_foldl_apply_update [simp]: "k_id (foldl apply_update t us) = k_id t"
  by (induction us arbitrary: t) simp_all

lemma update_first_find:
  "update_first now i us ts = Some ts' \<Longrightarrow> find (\<lambda>t. k_id t = i) ts' \<noteq> None"
  by (induction ts arbitrary: ts') (auto split: if_splits)

lemma storage_update_task_True:
  assumes "storage_update_task fl now i us f = (Inr True, f')"
  shows "\<exists>d. find_task_by_id f' i = Inr (Some d)"
proof -
  from assms obtain ts ts' b where
    "load_tasks f = Inr ts" "update_first now i us ts = Some ts'"
    "save_tasks fl ts' f = (Inr b, f')"
    by (auto simp: storage_update_task_def split: sum.splits option.splits prod.splits)
  then show ?thesis
    using update_first_find [of now i us ts ts'] load_after_save [of fl ts' f b f']
    by (auto simp: find_task_by_id_def)
qed

lemma shape_update_task: "result_shape (fst (update_task fl now i ti p c s d f))"
proof -
  have "result_shape (success_result m (map_option Task_data x))"
    if "find_task_by_id f' i = Inr x" "storage_update_task fl now i us f = (Inr True, f')"
       "m \<noteq> []" for m x f' us
    using that storage_update_task_True [of fl now i us f f'] by auto
  then show ?thesis
    by (auto simp: update_task_def split: sum.splits option.splits prod.splits bool.splits)
qed

lemma shape_complete_task: "result_shape (fst (complete_task fl now now' i u tg f))"
  by (auto simp: complete_task_def Let_def check_mark_def circle_mark_def
      split: sum.splits option.splits prod.splits bool.splits)

lemma shape_delete_task: "result_shape (fst (delete_task fl bk i force f))"
  by (auto simp: delete_task_def Let_def result_shape_def [of "\<lparr>success = True, message = m, data = Some x, error = None, error_code = None\<rparr>" for m x]
      split: sum.splits option.splits prod.splits bool.splits)

lemma shape_format_output: "result_shape (format_output fmt ts)"
  by (simp add: format_output_def Let_def)

lemma shape_list_tasks: "result_shape (list_tasks attrs now s p c co ov sb so li fmt f)"
  by (simp add: list_tasks_def shape_format_output split: sum.splits)

lemma shape_set_due_date: "result_shape (fst (set_due_date fl now i d f))"
  by (auto simp: set_due_date_def split: sum.splits option.splits prod.splits bool.splits)

lemma shape_get_upcoming_tasks: "result_shape (get_upcoming_tasks now days f)"
  by (simp add: get_upcoming_tasks_def Let_def split: sum.splits)

lemma shape_get_overdue_tasks: "result_shape (get_overdue_tasks now f)"
  by (simp add: get_overdue_tasks_def Let_def split: sum.splits)

text \<open>
  C6 as stated fails: a failure result populates \<open>message\<close>, a field of the success path,
  next to \<open>error\<close> and \<open>error_code\<close>. Here \<open>add_task\<close> is called with an empty title.
\<close>

theorem failure_populates_message_counterexample:
  "\<not> success (fst (add_task no_faults clock0 [] ''medium'' ''general'' None empty_fs))
   \<and> error (fst (add_task no_faults clock0 [] ''medium'' ''general'' None empty_fs))
       = Some ''Title cannot be empty''
   \<and> error_code (fst (add_task no_faults clock0 [] ''medium'' ''general'' None empty_fs))
       = Some ''VALIDATION_ERROR''
   \<and> message (fst (add_task no_faults clock0 [] ''medium'' ''general'' None empty_fs))
       = ''Operation failed: Title cannot be empty''
   \<and> message (fst (add_task no_faults clock0 [] ''medium'' ''general'' None empty_fs)) \<noteq> []"
  by code_simp

text \<open>
  C6 (amended): every result returned by a skill has a non-empty \<open>message\<close>. When \<open>success\<close>
  is true, \<open>data\<close> is populated and \<open>error\<close> and \<open>error_code\<close> are null; when it is false,
  \<open>error\<close> and \<open>error_code\<close> are populated, \<open>data\<close> is null and \<open>message\<close> is
  \<open>Operation failed: \<close> followed by the error.
\<close>

theorem operation_results_have_shape:
  "result_shape (fst (add_task fl now title' priority' category' due_date' f))
   \<and> result_shape (fst (update_task fl now task_id title_opt priority_opt category_opt
                          status_opt due_date' f))
   \<and> result_shape (fst (complete_task fl now now' task_id uncomplete toggle f))
   \<and> result_shape (fst (delete_task fl bk task_id force f))
   \<and> result_shape (list_tasks attrs now status_opt priority_opt category_opt completed_opt
                      overdue_only' sort_by sort_order limit output_format f)
   \<and> result_shape (fst (set_due_date fl now task_id due f))
   \<and> result_shape (get_upcoming_tasks now days f)
   \<and> result_shape (get_overdue_tasks now f)"
  by (simp add: shape_add_task shape_update_task shape_complete_task shape_delete_task
      shape_list_tasks shape_set_due_date shape_get_upcoming_tasks shape_get_overdue_tasks)

section \<open>Properties of \<open>list_tasks\<close>\<close>

lemma sort_tasks_unknown:
  "sort_by \<notin> set task_fields \<Longrightarrow> sort_by \<notin> set task_methods \<Longrightarrow> attrs sort_by = None
   \<Longrightarrow> sort_tasks attrs sort_by reverse ts = Inr ts"
  by (simp add: sort_tasks_def task_fields_def)

lemma success_format_output: "success (format_output fmt ts)"
  by (simp add: format_output_def Let_def success_result_def)

lemma listed_format_output_json: "listed (data (format_output ''json'' ts)) = map to_dict ts"
  by (simp add: format_output_def Let_def success_result_def)

text \<open>
  C8 as stated fails: \<open>category\<close> is outside the five documented sort keys, yet it is an
  attribute of \<open>Task\<close> and the list is sorted by it. The store holds task 1 (category
  \<open>work\<close>) and task 2 (category \<open>home\<close>) in this order; the result lists 2 before 1.
\<close>

theorem sort_by_category_reorders_counterexample:
  "map k_id (stored store2) = [1, 2]
   \<and> success (list_tasks attrs_excerpt clock0 None None None None False ''category'' ''asc''
                None ''json'' store2)
   \<and> map k_id (listed (data (list_tasks attrs_excerpt clock0 None None None None False
                               ''category'' ''asc'' None ''json'' store2))) = [2, 1]"
  by code_simp

text \<open>
  C8 (amended): for every \<open>sort_by\<close> value that is not the name of an attribute of a
  \<open>Task\<close> object (none of its ten fields, none of its methods, and none of the attributes
  that the object protocol and the dataclass decorator supply, such as \<open>__class__\<close>),
  sorting is a no-op and not an error: when the store loads and the filter arguments
  parse, \<open>list_tasks\<close> succeeds and returns the filtered tasks in load order, cut to the
  limit.
\<close>

theorem unknown_sort_key_is_noop:
  assumes "sort_by \<notin> set task_fields" and "sort_by \<notin> set task_methods"
    and "attrs sort_by = None"
    and "load_tasks f = Inr ds" and "from_dicts ds = Inr ts"
    and "build_filter status_opt priority_opt category_opt completed_opt ov = Inr flt"
  shows "list_tasks attrs now status_opt priority_opt category_opt completed_opt ov sort_by
             sort_order limit output_format f
           = format_output output_format (apply_limit limit (filter (matches now flt) ts))
         \<and> success (list_tasks attrs now status_opt priority_opt category_opt completed_opt ov
                      sort_by sort_order limit output_format f)
         \<and> listed (data (list_tasks attrs now status_opt priority_opt category_opt
                            completed_opt ov sort_by sort_order limit ''json'' f))
           = map to_dict (apply_limit limit (filter (matches now flt) ts))"
  using assms
  by (simp add: list_tasks_def sort_tasks_unknown success_format_output
      listed_format_output_json)

theorem unknown_sort_key_is_noop_witness:
  "success (list_tasks attrs_excerpt clock0 None None None None False ''nonsense'' ''desc''
              None ''json'' store2)
   \<and> map k_id (listed (data (list_tasks attrs_excerpt clock0 None None None None False
                               ''nonsense'' ''desc'' None ''json'' store2))) = [1, 2]"
proof -
  have 1: "''nonsense'' \<notin> set task_fields" by (simp add: task_fields_def)
  have 2: "''nonsense'' \<notin> set task_methods" by (simp add: task_methods_def)
  have 3: "attrs_excerpt ''nonsense'' = None" by (simp add: attrs_excerpt_def)
  have 4: "load_tasks store2 = Inr (stored store2)" by code_simp
  have 5: "from_dicts (stored store2) = Inr (projr (from_dicts (stored store2)))"
    by code_simp
  have 6: "build_filter None None None None False
             = Inr \<lparr>filter_status = None, filter_priority = None, filter_category = None,
                    filter_completed = None, overdue_only = False\<rparr>"
    by (simp add: build_filter_def truthy_def)
  have 7: "map k_id (map to_dict (apply_limit None (filter (matches clock0
             \<lparr>filter_status = None, filter_priority = None, filter_category = None,
              filter_completed = None, overdue_only = False\<rparr>)
             (projr (from_dicts (stored store2)))))) = [1, 2]"
    by code_simp
  note inst = unknown_sort_key_is_noop
    [where sort_by = "''nonsense''" and attrs = attrs_excerpt and now = clock0
       and sort_order = "''desc''" and limit = None and output_format = "''json''",
     OF 1 2 3 4 5 6]
  from inst have a: "success (list_tasks attrs_excerpt clock0 None None None None False
                      ''nonsense'' ''desc'' None ''json'' store2)"
    by (rule conjunct1 [OF conjunct2])
  from inst have b: "listed (data (list_tasks attrs_excerpt clock0 None None None None False
                      ''nonsense'' ''desc'' None ''json'' store2))
      = map to_dict (apply_limit None (filter (matches clock0
             \<lparr>filter_status = None, filter_priority = None, filter_category = None,
              filter_completed = None, overdue_only = False\<rparr>)
             (projr (from_dicts (stored store2)))))"
    by (rule conjunct2 [OF conjunct2])
  show ?thesis using a by (simp only: b 7)
qed

section \<open>Properties of \<open>get_upcoming_tasks\<close>\<close>

lemma div_window:
  fixes x d n :: int
  assumes d: "0 < d"
  shows "(0 \<le> x div d \<and> x div d \<le> n) \<longleftrightarrow> (0 \<le> x \<and> x < (n + 1) * d)"
proof -
  define q where "q = x div d"
  define r where "r = x mod d"
  have x: "x = d * q + r" by (simp add: q_def r_def)
  have r: "0 \<le> r" "r < d" using d by (simp_all add: r_def)
  have e: "(n + 1) * d = d * n + d" by (simp add: algebra_simps)
  have "q \<le> n \<longleftrightarrow> x < (n + 1) * d"
  proof
    assume "q \<le> n"
    then have "d * q \<le> d * n" using d by (simp add: mult_left_mono)
    with x r(2) e show "x < (n + 1) * d" by linarith
  next
    assume lt: "x < (n + 1) * d"
    show "q \<le> n"
    proof (rule ccontr)
      assume "\<not> q \<le> n"
      then have "n + 1 \<le> q" by simp
      then have "d * (n + 1) \<le> d * q" using d by (simp only: mult_left_mono)
      moreover have "d * (n + 1) = d * n + d" by (simp add: algebra_simps)
      ultimately show False using x r(1) lt e by linarith
    qed
  qed
  then show ?thesis using d by (simp add: pos_imp_zdiv_nonneg_iff q_def)
qed

lemma to_us_replace_tzinfo [simp]: "to_us (replace_tzinfo_None d) = to_us d"
  by (simp add: to_us_def replace_tzinfo_None_def)

lemma is_upcoming_window:
  "is_upcoming now days t \<longleftrightarrow>
     (\<not> completed t
      \<and> (\<exists>s due. due_date t = Some s \<and> s \<noteq> [] \<and> parse_stored_date s = Some due
            \<and> to_us now \<le> to_us due \<and> to_us due < to_us now + (days + 1) * day_us))"
proof -
  have w: "(0 \<le> delta_days (replace_tzinfo_None due) now
            \<and> delta_days (replace_tzinfo_None due) now \<le> days)
           \<longleftrightarrow> (to_us now \<le> to_us due \<and> to_us due < to_us now + (days + 1) * day_us)"
    for due
    using div_window [of day_us "to_us due - to_us now" days]
    by (auto simp: delta_days_def day_us_def)
  show ?thesis
  proof (cases "completed t \<or> \<not> truthy (due_date t)")
    case True
    then show ?thesis by (auto simp: is_upcoming_def truthy_def)
  next
    case False
    then obtain s where s: "due_date t = Some s" "s \<noteq> []" "\<not> completed t"
      by (auto simp: truthy_def)
    show ?thesis
    proof (cases "parse_stored_date s")
      case None
      with s show ?thesis by (simp add: is_upcoming_def truthy_def)
    next
      case (Some due)
      with s w [of due] show ?thesis by (simp add: is_upcoming_def truthy_def Let_def)
    qed
  qed
qed

text \<open>
  C9 as stated fails: with \<open>now\<close> at 2024-01-15 10:00 and \<open>days = 2\<close>, the task due on
  2024-01-18 00:00 is returned although its due date lies after \<open>now + 2 days\<close>: the
  difference, 2 days and 14 hours, counts as 2 whole days.
\<close>

theorem upcoming_beyond_window_counterexample:
  "map k_id (stored store_due) = [1]
   \<and> map k_completed (stored store_due) = [False]
   \<and> map k_due_date (stored store_due) = [Some ''2024-01-18T00:00:00'']
   \<and> map_option isoformat (parse_stored_date ''2024-01-18T00:00:00'')
       = Some ''2024-01-18T00:00:00''
   \<and> isoformat clock0 = ''2024-01-15T10:00:00''
   \<and> to_us (the (parse_stored_date ''2024-01-18T00:00:00'')) > to_us clock0 + 2 * day_us
   \<and> map k_id (listed (data (get_upcoming_tasks clock0 2 store_due))) = [1]"
  by code_simp

text \<open>
  C9 (amended): when the store loads, \<open>get_upcoming_tasks(days)\<close> succeeds and returns
  exactly the non-completed tasks with a non-empty, parseable due date whose wall-clock
  value \<open>due\<close> satisfies \<open>now \<le> due < now + (days + 1) days\<close> (the whole days between
  \<open>now\<close> and \<open>due\<close> are between 0 and \<open>days\<close>), each as often as it is stored, sorted
  ascending by the due-date string.
\<close>

theorem get_upcoming_tasks_window:
  assumes "load_tasks f = Inr ds" and "from_dicts ds = Inr ts"
  shows "\<exists>up. get_upcoming_tasks now days f
                = success_result (''Found '' @ str_int (int (length up)) @ '' upcoming tasks'')
                    (Some (Task_list (map to_dict up)))
           \<and> (\<forall>t. t \<in> set up \<longleftrightarrow>
                  t \<in> set ts \<and> \<not> completed t
                  \<and> (\<exists>s due. due_date t = Some s \<and> s \<noteq> [] \<and> parse_stored_date s = Some due
                        \<and> to_us now \<le> to_us due
                        \<and> to_us due < to_us now + (days + 1) * day_us))
           \<and> mset up = mset (filter (is_upcoming now days) ts)
           \<and> sorted (map (\<lambda>t. or_empty (due_date t)) up)"
proof -
  let ?up = "sort_key (\<lambda>t. or_empty (due_date t)) (filter (is_upcoming now days) ts)"
  have 1: "get_upcoming_tasks now days f
       = success_result (''Found '' @ str_int (int (length ?up)) @ '' upcoming tasks'')
           (Some (Task_list (map to_dict ?up)))"
    using assms by (simp add: get_upcoming_tasks_def Let_def)
  have 2: "t \<in> set ?up \<longleftrightarrow>
             t \<in> set ts \<and> \<not> completed t
             \<and> (\<exists>s due. due_date t = Some s \<and> s \<noteq> [] \<and> parse_stored_date s = Some due
                   \<and> to_us now \<le> to_us due
                   \<and> to_us due < to_us now + (days + 1) * day_us)" for t
    using is_upcoming_window [of now days t] by simp
  have 3: "mset ?up = mset (filter (is_upcoming now days) ts)" by simp
  have 4: "sorted (map (\<lambda>t. or_empty (due_date t)) ?up)" by simp
  from 1 2 3 4 show ?thesis by blast
qed

theorem get_upcoming_tasks_window_witness:
  "\<exists>up. get_upcoming_tasks clock0 2 store_due
                = success_result (''Found '' @ str_int (int (length up)) @ '' upcoming tasks'')
                    (Some (Task_list (map to_dict up)))
           \<and> (\<forall>t. t \<in> set up \<longleftrightarrow>
                  t \<in> set (projr (from_dicts (stored store_due))) \<and> \<not> completed t
                  \<and> (\<exists>s due. due_date t = Some s \<and> s \<noteq> [] \<and> parse_stored_date s = Some due
                        \<and> to_us clock0 \<le> to_us due
                        \<and> to_us due < to_us clock0 + (2 + 1) * day_us))
           \<and> mset up = mset (filter (is_upcoming clock0 2) (projr (from_dicts (stored store_due))))
           \<and> sorted (map (\<lambda>t. or_empty (due_date t)) up)"
proof -
  have 1: "load_tasks store_due = Inr (stored store_due)" by code_simp
  have 2: "from_dicts (stored store_due) = Inr (projr (from_dicts (stored store_due)))"
    by code_simp
  show ?thesis by (rule get_upcoming_tasks_window [OF 1 2])
qed


section \<open>Properties of the completion marks\<close>

lemma success_update_failed [simp]: "success (update_failed i) = False"
  by (simp add: update_failed_def)









end
